theory Spec2Isabelle
  imports Complex_Main "HOL-Library.Word" "HOL-Library.Stream" "HOL-Library.Signed_Division"
begin

section \<open>Shared helpers of the sequencer engine\<close>

type_synonym u32 = "32 word"
type_synonym u8 = "8 word"

text \<open>
  Modelled from the spec: \<^verbatim>\<open>clamp\<close> of core/math/Math.h is not among the sources. The
  spec uses \<^verbatim>\<open>clamp(x, lo, hi)\<close> for saturation of \<open>x\<close> into \<open>[lo, hi]\<close>; every call
  in the sources below has \<open>lo \<le> hi\<close> on the states the engine can reach.
\<close>

definition clamp :: "int \<Rightarrow> int \<Rightarrow> int \<Rightarrow> int" where
  "clamp v lo hi = max lo (min hi v)"

text \<open>
  Modelled from the spec: core/utils/Random.h is not among the sources. The spec writes
  \<^verbatim>\<open>rng[0..n)\<close> for a sample below \<open>n\<close>. The generator is the stream of the raw numbers
  it is going to produce; \<^verbatim>\<open>nextRange(n)\<close> consumes one of them and reduces it below
  \<open>n\<close>. Nothing is assumed about the distribution of the raw numbers. Every call in the
  sources passes a positive range.
\<close>

type_synonym Random = "nat stream"

definition nextRange :: "nat \<Rightarrow> Random \<Rightarrow> nat \<times> Random" where
  "nextRange n rng = (shd rng mod n, stl rng)"

text \<open>
  The value types of NoteSequence.h (\<^verbatim>\<open>GateProbability::Max\<close>, \<^verbatim>\<open>Length::Range\<close>,
  \<^verbatim>\<open>Length::clamp\<close>, ...) are declared in a header that is not among the sources.
  They are parameters of the model: one descriptor per value type.
\<close>

record ValueType =
  Min' :: int
  Max' :: int
  Range' :: int

text \<open>
  Modelled from the spec: the static \<^verbatim>\<open>clamp\<close> of a value type is not among the
  sources; the spec has every field saturate into its declared range.
\<close>

definition vclamp :: "ValueType \<Rightarrow> int \<Rightarrow> int" where
  "vclamp t v = clamp v (Min' t) (Max' t)"

text \<open>The layouts used for concrete runs: an \<open>n\<close>-bit unsigned and signed field.\<close>

definition UnsignedValue :: "nat \<Rightarrow> ValueType" where
  "UnsignedValue n = \<lparr>Min' = 0, Max' = 2 ^ n - 1, Range' = 2 ^ n\<rparr>"

definition SignedValue :: "nat \<Rightarrow> ValueType" where
  "SignedValue n = \<lparr>Min' = - (2 ^ (n - 1)), Max' = 2 ^ (n - 1) - 1, Range' = 2 ^ n\<rparr>"

record NoteSequenceTypes =
  GateProbability :: ValueType
  GateOffset :: ValueType
  Retrigger :: ValueType
  RetriggerProbability :: ValueType
  Length :: ValueType
  LengthVariationRange :: ValueType
  LengthVariationProbability :: ValueType
  Note :: ValueType
  NoteVariationRange :: ValueType
  NoteVariationProbability :: ValueType

definition exampleTypes :: NoteSequenceTypes where
  "exampleTypes =
     \<lparr>GateProbability = UnsignedValue 3, GateOffset = SignedValue 4,
      Retrigger = UnsignedValue 2, RetriggerProbability = UnsignedValue 3,
      Length = UnsignedValue 3, LengthVariationRange = SignedValue 4,
      LengthVariationProbability = UnsignedValue 3, Note = SignedValue 7,
      NoteVariationRange = SignedValue 7, NoteVariationProbability = UnsignedValue 3\<rparr>"

section \<open>Types::Condition\<close>

text \<open>
  \<^verbatim>\<open>evalStepCondition\<close> switches on seven named conditions and sends every other value
  to its \<^verbatim>\<open>default\<close> branch, where the value is read as an integer index. The enum
  itself (Types.h) is not among the sources: the named cases are constructors,
  \<open>Other index\<close> is any other value, and the bounds \<^verbatim>\<open>Loop\<close>, \<^verbatim>\<open>Last\<close> and the table
  \<^verbatim>\<open>conditionLoop\<close> are parameters.
\<close>

datatype Condition = Off | Fill | NotFill | Pre | NotPre | First | NotFirst | Other int

record ConditionLoop =
  base :: int
  offset :: int

record ConditionTypes =
  Condition_Loop :: int
  Condition_Last :: int
  conditionLoop :: "int \<Rightarrow> ConditionLoop"

section \<open>NoteSequence::Step\<close>

record Step =
  gate :: bool
  gateProbability :: int
  gateOffset :: int
  slide :: bool
  retrigger :: int
  retriggerProbability :: int
  length' :: int
  lengthVariationRange :: int
  lengthVariationProbability :: int
  note' :: int
  noteVariationRange :: int
  noteVariationProbability :: int
  condition :: Condition

section \<open>Step evaluation (NoteTrackEngine.cpp, lines 15 to 61)\<close>

text \<open>
  \<^verbatim>\<open>step.gate() && int(rng.nextRange(Range)) <= probability\<close>: the generator is
  sampled only when the gate is set.
\<close>

definition evalStepGate :: "NoteSequenceTypes \<Rightarrow> Step \<Rightarrow> int \<Rightarrow> Random \<Rightarrow> bool \<times> Random" where
  "evalStepGate T step probabilityBias rng =
     (let probability = clamp (gateProbability step + probabilityBias) (- 1) (Max' (GateProbability T))
      in if gate step
         then (let (sample, rng') = nextRange (nat (Range' (GateProbability T))) rng
               in (int sample \<le> probability, rng'))
         else (False, rng))"

text \<open>
  The result is the pair of the returned value and the new content of the reference
  parameter \<^verbatim>\<open>prevCondition\<close>. C's \<^verbatim>\<open>%\<close> truncates: it is \<open>smod\<close>. A value outside
  \<open>[Loop, Last)\<close> in the default branch falls through to the final \<^verbatim>\<open>return true\<close>.
\<close>

definition evalStepCondition ::
    "ConditionTypes \<Rightarrow> Step \<Rightarrow> int \<Rightarrow> bool \<Rightarrow> bool \<Rightarrow> bool \<times> bool" where
  "evalStepCondition C step iteration fill prevCondition =
     (case condition step of
        Off \<Rightarrow> (True, prevCondition)
      | Fill \<Rightarrow> (fill, fill)
      | NotFill \<Rightarrow> (\<not> fill, \<not> fill)
      | Pre \<Rightarrow> (prevCondition, prevCondition)
      | NotPre \<Rightarrow> (\<not> prevCondition, prevCondition)
      | First \<Rightarrow> (iteration = 0, iteration = 0)
      | NotFirst \<Rightarrow> (iteration \<noteq> 0, iteration \<noteq> 0)
      | Other index \<Rightarrow>
          if index \<ge> Condition_Loop C \<and> index < Condition_Last C
          then (let loop = conditionLoop C index;
                    p = (iteration smod base loop = offset loop)
                in (p, p))
          else (True, prevCondition))"

definition evalStepRetrigger :: "NoteSequenceTypes \<Rightarrow> Step \<Rightarrow> int \<Rightarrow> Random \<Rightarrow> int \<times> Random" where
  "evalStepRetrigger T step probabilityBias rng =
     (let probability = clamp (retriggerProbability step + probabilityBias) (- 1)
                          (Max' (RetriggerProbability T));
          (sample, rng') = nextRange (nat (Range' (RetriggerProbability T))) rng
      in (if int sample \<le> probability then retrigger step + 1 else 1, rng'))"

definition evalStepLength :: "NoteSequenceTypes \<Rightarrow> Step \<Rightarrow> int \<Rightarrow> Random \<Rightarrow> int \<times> Random" where
  "evalStepLength T step lengthBias rng =
     (let length0 = vclamp (Length T) (length' step + lengthBias) + 1;
          probability = lengthVariationProbability step;
          (sample, rng1) = nextRange (nat (Range' (LengthVariationProbability T))) rng
      in if int sample \<le> probability
         then (let (offset0, rng2) =
                     (if lengthVariationRange step = 0 then (0, rng1)
                      else (let (r, rng') = nextRange (nat (\<bar>lengthVariationRange step\<bar> + 1)) rng1
                            in (int r, rng')));
                   offset1 = (if lengthVariationRange step < 0 then - offset0 else offset0)
               in (clamp (length0 + offset1) 0 (Range' (Length T)), rng2))
         else (length0, rng1))"

section \<open>NoteTrackEngine state\<close>

datatype NoteFillMode = NoteFill_None | NoteFill_Gates | NoteFill_NextPattern | NoteFill_Condition

record NoteSequence =
  steps :: "Step list"
  firstStep :: int
  lastStep :: int

record NoteTrack =
  sequences :: "NoteSequence list"
  fillMode :: NoteFillMode
  rotate' :: int
  gateProbabilityBias :: int
  retriggerProbabilityBias :: int
  lengthBias :: int

record SequenceState =
  step :: int
  prevStep :: int
  iteration :: int

datatype EventType = NoteOn | NoteOff

record Event =
  ev_type :: EventType
  ev_tick :: u32
  ev_note :: int

text \<open>
  The pointers \<^verbatim>\<open>_sequence\<close> and \<^verbatim>\<open>_fillSequence\<close> point into the track's array of
  sequences: they are the indices of their targets, so that two pointers are equal
  exactly when the indices are. \<open>trackPattern\<close>, \<open>trackFill\<close> and \<open>trackFillAmount\<close> are
  what the base class returns for \<^verbatim>\<open>pattern()\<close>, \<^verbatim>\<open>fill()\<close> and \<^verbatim>\<open>fillAmount()\<close>.
\<close>

record NoteTrackEngine =
  noteTrack :: NoteTrack
  trackPattern :: int
  trackFill :: bool
  trackFillAmount :: int
  sequence :: int
  fillSequence :: int
  sequenceState :: SequenceState
  currentStep :: int
  prevCondition :: bool
  recordHistory :: "Event list"

text \<open>
  What the engine takes from headers that are not among the sources: the value types,
  the condition table, \<^verbatim>\<open>SequenceUtils::rotateStep\<close>, the swing of \<^verbatim>\<open>applySwing\<close>
  (\<^verbatim>\<open>Groove::swing\<close> at the track's swing amount), \<^verbatim>\<open>CONFIG_PATTERN_COUNT\<close>, the
  conversion of \<^verbatim>\<open>noteFromMidiNote\<close> (it goes through the float tables of the scale)
  and \<^verbatim>\<open>Step::clear\<close>.
\<close>

record Env =
  types :: NoteSequenceTypes
  conditions :: ConditionTypes
  rotateStep :: "int \<Rightarrow> int \<Rightarrow> int \<Rightarrow> int \<Rightarrow> int"
  applySwing :: "u32 \<Rightarrow> u32"
  CONFIG_PATTERN_COUNT :: int
  noteFromMidiNote :: "int \<Rightarrow> int"
  clearStep :: "Step \<Rightarrow> Step"

text \<open>A gate event \<^verbatim>\<open>{ tick, gate }\<close> as it is handed to \<^verbatim>\<open>_gateQueue.pushReplace\<close>.\<close>

type_synonym GateEvent = "u32 \<times> bool"

definition sequenceAt :: "NoteTrack \<Rightarrow> int \<Rightarrow> NoteSequence" where
  "sequenceAt t index = sequences t ! nat index"

definition stepAt :: "NoteSequence \<Rightarrow> int \<Rightarrow> Step" where
  "stepAt s index = steps s ! nat index"

section \<open>NoteTrackEngine::changePattern (lines 226 to 229)\<close>

definition changePattern :: "Env \<Rightarrow> NoteTrackEngine \<Rightarrow> NoteTrackEngine" where
  "changePattern env e =
     e\<lparr>sequence := trackPattern e,
       fillSequence := min (trackPattern e + 1) (CONFIG_PATTERN_COUNT env - 1)\<rparr>"

section \<open>NoteTrackEngine::triggerStep (lines 260 to 296)\<close>

text \<open>
  Line 264: \<^verbatim>\<open>fill() && (rng.nextRange(100) < uint32_t(fillAmount()))\<close>. The generator is
  sampled only while fill is held; the comparison is unsigned.
\<close>

definition evalFillStep :: "bool \<Rightarrow> int \<Rightarrow> Random \<Rightarrow> bool \<times> Random" where
  "evalFillStep fill fillAmount rng =
     (if fill
      then (let (sample, rng') = nextRange 100 rng
            in ((word_of_nat sample :: u32) < word_of_int fillAmount, rng'))
      else (False, rng))"

text \<open>Lines 270 to 272: the sequence that is evaluated and the step read from it.\<close>

definition evalSequence :: "NoteTrackEngine \<Rightarrow> bool \<Rightarrow> NoteSequence" where
  "evalSequence e useFillSequence =
     (if useFillSequence then sequenceAt (noteTrack e) (fillSequence e)
      else sequenceAt (noteTrack e) (sequence e))"

definition rotatedStep :: "Env \<Rightarrow> NoteTrackEngine \<Rightarrow> int" where
  "rotatedStep env e =
     (let sequence' = sequenceAt (noteTrack e) (sequence e)
      in rotateStep env (step (sequenceState e)) (firstStep sequence') (lastStep sequence')
           (rotate' (noteTrack e)))"

text \<open>
  Lines 276 to 279: the gate of the step. The first component is \<^verbatim>\<open>stepGate\<close> as line
  276 leaves it, the second as line 279 leaves it, the third is \<^verbatim>\<open>_prevCondition\<close>.
\<close>

definition evalTriggerGate ::
    "Env \<Rightarrow> NoteTrackEngine \<Rightarrow> Step \<Rightarrow> bool \<Rightarrow> bool \<Rightarrow> Random \<Rightarrow> (bool \<times> bool \<times> bool) \<times> Random" where
  "evalTriggerGate env e step' useFillGates useFillCondition rng =
     (let (g, rng') = evalStepGate (types env) step' (gateProbabilityBias (noteTrack e)) rng;
          stepGate = (g \<or> useFillGates)
      in if stepGate
         then (let (c, p) = evalStepCondition (conditions env) step' (iteration (sequenceState e))
                              useFillCondition (prevCondition e)
               in ((stepGate, c, p), rng'))
         else ((stepGate, False, prevCondition e), rng'))"

text \<open>
  Lines 287 to 291: \<^verbatim>\<open>while (stepRetrigger-- > 0 && retriggerOffset <= stepLength)\<close>.
  The counter is positive when the loop is entered and goes down by one per round: the
  recursion is on the counter. \<open>start\<close> is \<^verbatim>\<open>tick + gateOffset\<close>.
\<close>

fun retriggerLoop :: "(u32 \<Rightarrow> u32) \<Rightarrow> u32 \<Rightarrow> u32 \<Rightarrow> u32 \<Rightarrow> nat \<Rightarrow> u32 \<Rightarrow> GateEvent list" where
  "retriggerLoop sw start retriggerLength stepLength 0 retriggerOffset = []"
| "retriggerLoop sw start retriggerLength stepLength (Suc n) retriggerOffset =
     (if retriggerOffset \<le> stepLength
      then [(sw (start + retriggerOffset), True),
            (sw (start + retriggerOffset + retriggerLength div 2), False)]
           @ retriggerLoop sw start retriggerLength stepLength n (retriggerOffset + retriggerLength)
      else [])"

text \<open>
  Lines 281 to 296: the gate events of a step whose gate passed, in the order of the
  calls of \<^verbatim>\<open>pushReplace\<close>.
\<close>

definition stepLengthTicks :: "Env \<Rightarrow> u32 \<Rightarrow> int \<Rightarrow> u32" where
  "stepLengthTicks env divisor len =
     (divisor * word_of_int len) div word_of_int (Range' (Length (types env)))"

definition gateEvents :: "Env \<Rightarrow> u32 \<Rightarrow> u32 \<Rightarrow> u32 \<Rightarrow> u32 \<Rightarrow> int \<Rightarrow> GateEvent list" where
  "gateEvents env tick divisor gateOffset' stepLength stepRetrigger =
     (if stepRetrigger > 1
      then retriggerLoop (applySwing env) (tick + gateOffset') (divisor div word_of_int stepRetrigger)
             stepLength (nat stepRetrigger) 0
      else [(applySwing env (tick + gateOffset'), True),
            (applySwing env (tick + gateOffset' + stepLength), False)])"

text \<open>
  The whole of lines 260 to 296. The result is the engine, the generator and the gate
  events pushed. Lines 298 to 302 push the note voltage, a float, to the CV queue; they
  are not part of the model.
\<close>

definition triggerStep ::
    "Env \<Rightarrow> u32 \<Rightarrow> u32 \<Rightarrow> NoteTrackEngine \<Rightarrow> Random \<Rightarrow> NoteTrackEngine \<times> Random \<times> GateEvent list" where
  "triggerStep env tick divisor e rng =
     (let (fillStep, rng1) = evalFillStep (trackFill e) (trackFillAmount e) rng;
          useFillGates = (fillStep \<and> fillMode (noteTrack e) = NoteFill_Gates);
          useFillSequence = (fillStep \<and> fillMode (noteTrack e) = NoteFill_NextPattern);
          useFillCondition = (fillStep \<and> fillMode (noteTrack e) = NoteFill_Condition);
          currentStep' = rotatedStep env e;
          step' = stepAt (evalSequence e useFillSequence) currentStep';
          gateOffset' = (divisor * word_of_int (gateOffset step'))
                          div word_of_int (Max' (GateOffset (types env)) + 1);
          ((g0, stepGate, prevCondition'), rng2) =
             evalTriggerGate env e step' useFillGates useFillCondition rng1;
          e' = e\<lparr>currentStep := currentStep', prevCondition := prevCondition'\<rparr>
      in if stepGate
         then (let (len, rng3) = evalStepLength (types env) step' (lengthBias (noteTrack e)) rng2;
                   stepLength = stepLengthTicks env divisor len;
                   (stepRetrigger, rng4) =
                      evalStepRetrigger (types env) step' (retriggerProbabilityBias (noteTrack e)) rng3
               in (e', rng4, gateEvents env tick divisor gateOffset' stepLength stepRetrigger))
         else (e', rng2, []))"

section \<open>NoteTrackEngine::recordStep (lines 305 to 371)\<close>

datatype RecordMode = Overwrite | Punch | StepRecord

















section \<open>CurveTrackEngine\<close>

datatype CurveFillMode = CurveFill_None | CurveFill_Variation | CurveFill_NextPattern | CurveFill_Invert

record CurveStep =
  shape :: int
  shapeVariation :: int
  shapeVariationProbability :: int
  curveGate :: int
  curveGateProbability :: int

record CurveSequence =
  curveSteps :: "CurveStep list"
  curveFirstStep :: int
  curveLastStep :: int

record CurveTrack =
  curveSequences :: "CurveSequence list"
  curveFillMode :: CurveFillMode
  curveRotate :: int
  shapeProbabilityBias :: int
  curveGateProbabilityBias :: int

text \<open>
  As for the note engine, \<open>curveSequence\<close> and \<open>curveFillSequence\<close> are the indices of
  the targets of \<^verbatim>\<open>_sequence\<close> and \<^verbatim>\<open>_fillSequence\<close>; \<open>engineFillMode\<close> is the member
  \<^verbatim>\<open>_fillMode\<close>.
\<close>

record CurveTrackEngine =
  curveTrack :: CurveTrack
  curvePattern :: int
  curveFill :: bool
  curveFillAmount :: int
  curveSequence :: int
  curveFillSequence :: int
  curveSequenceState :: SequenceState
  curveCurrentStep :: int
  shapeVariationActive :: bool
  engineFillMode :: CurveFillMode

record CurveEnv =
  curveGateProbabilityType :: ValueType
  curveRotateStep :: "int \<Rightarrow> int \<Rightarrow> int \<Rightarrow> int \<Rightarrow> int"
  curveApplySwing :: "u32 \<Rightarrow> u32"
  CURVE_CONFIG_PATTERN_COUNT :: int

definition curveSequenceAt :: "CurveTrack \<Rightarrow> int \<Rightarrow> CurveSequence" where
  "curveSequenceAt t index = curveSequences t ! nat index"

definition curveStepAt :: "CurveSequence \<Rightarrow> int \<Rightarrow> CurveStep" where
  "curveStepAt s index = curveSteps s ! nat index"



text \<open>CurveTrackEngine::changePattern, lines 138 to 141.\<close>

definition curveChangePattern :: "CurveEnv \<Rightarrow> CurveTrackEngine \<Rightarrow> CurveTrackEngine" where
  "curveChangePattern env e =
     e\<lparr>curveSequence := curvePattern e,
       curveFillSequence := min (curvePattern e + 1) (CURVE_CONFIG_PATTERN_COUNT env - 1)\<rparr>"



text \<open>
  CurveTrackEngine::updateOutput, lines 169 to 186, up to the call of \<^verbatim>\<open>evalStepShape\<close>:
  the step, the variation flag and the inversion flag that are passed to it, or
  \<open>None\<close> for the early return. The shape functions and the voltage are floats and not
  part of the model.
\<close>

definition updateOutputArgs :: "CurveTrackEngine \<Rightarrow> (CurveStep \<times> bool \<times> bool) option" where
  "updateOutputArgs e =
     (if step (curveSequenceState e) < 0 then None
      else
        (let fillVariation = (engineFillMode e = CurveFill_Variation);
             fillNextPattern = (engineFillMode e = CurveFill_NextPattern);
             fillInvert = (engineFillMode e = CurveFill_Invert);
             evalSequence' = (if fillNextPattern
                              then curveSequenceAt (curveTrack e) (curveFillSequence e)
                              else curveSequenceAt (curveTrack e) (curveSequence e));
             step' = curveStepAt evalSequence' (curveCurrentStep e)
         in Some (step', shapeVariationActive e \<or> fillVariation, fillInvert)))"

text \<open>
  \<^verbatim>\<open>sequenceProgress\<close> (CurveTrackEngine.h, lines 33 to 35) divides two floats converted
  from integers. The outcome of an IEEE 754 division is a number, an infinity with its
  sign, or NaN for \<open>0 / 0\<close>. A number is kept as the exact quotient: rounding it to
  single precision is monotone and keeps 0 and 1, so it does not move a value into or
  out of \<open>[0, 1]\<close>.
\<close>

datatype f32 = Number real | Infinity bool | NaN

definition fdiv :: "int \<Rightarrow> int \<Rightarrow> f32" where
  "fdiv a b =
     (if b = 0 then (if a = 0 then NaN else Infinity (0 < a))
      else Number (real_of_int a / real_of_int b))"

definition sequenceProgress :: "CurveTrackEngine \<Rightarrow> f32" where
  "sequenceProgress e =
     (let sequence' = curveSequenceAt (curveTrack e) (curveSequence e)
      in if curveCurrentStep e < 0 then Number 0
         else fdiv (curveCurrentStep e - curveFirstStep sequence')
                (curveLastStep sequence' - curveFirstStep sequence'))"

definition inUnitInterval :: "f32 \<Rightarrow> bool" where
  "inUnitInterval x = (case x of Number r \<Rightarrow> 0 \<le> r \<and> r \<le> 1 | Infinity b \<Rightarrow> False | NaN \<Rightarrow> False)"

section \<open>MidiCvTrack\<close>

text \<open>
  The members are \<^verbatim>\<open>uint8_t\<close>; the getters return them as \<^verbatim>\<open>int\<close>, the setters take an
  \<^verbatim>\<open>int\<close>, clamp it and store it in eight bits.
\<close>

record MidiCvTrack =
  m_voices :: u8
  m_lowNote :: u8
  m_highNote :: u8
  m_pitchBendRange :: u8
  m_retrigger :: bool

definition voices :: "MidiCvTrack \<Rightarrow> int" where
  "voices t = uint (m_voices t)"

definition setVoices :: "int \<Rightarrow> MidiCvTrack \<Rightarrow> MidiCvTrack" where
  "setVoices v t = t\<lparr>m_voices := word_of_int (clamp v 1 8)\<rparr>"

definition editVoices :: "int \<Rightarrow> bool \<Rightarrow> MidiCvTrack \<Rightarrow> MidiCvTrack" where
  "editVoices v shift' t = setVoices (voices t + v) t"

definition lowNote :: "MidiCvTrack \<Rightarrow> int" where
  "lowNote t = uint (m_lowNote t)"

definition highNote :: "MidiCvTrack \<Rightarrow> int" where
  "highNote t = uint (m_highNote t)"

definition setLowNote :: "int \<Rightarrow> MidiCvTrack \<Rightarrow> MidiCvTrack" where
  "setLowNote v t = t\<lparr>m_lowNote := word_of_int (clamp v 0 (highNote t))\<rparr>"

definition editLowNote :: "int \<Rightarrow> bool \<Rightarrow> MidiCvTrack \<Rightarrow> MidiCvTrack" where
  "editLowNote v shift' t = setLowNote (lowNote t + v * (if shift' then 12 else 1)) t"

definition setHighNote :: "int \<Rightarrow> MidiCvTrack \<Rightarrow> MidiCvTrack" where
  "setHighNote v t = t\<lparr>m_highNote := word_of_int (clamp v (lowNote t) 127)\<rparr>"

definition editHighNote :: "int \<Rightarrow> bool \<Rightarrow> MidiCvTrack \<Rightarrow> MidiCvTrack" where
  "editHighNote v shift' t = setHighNote (highNote t + v * (if shift' then 12 else 1)) t"

definition pitchBendRange :: "MidiCvTrack \<Rightarrow> int" where
  "pitchBendRange t = uint (m_pitchBendRange t)"

definition setPitchBendRange :: "int \<Rightarrow> MidiCvTrack \<Rightarrow> MidiCvTrack" where
  "setPitchBendRange v t = t\<lparr>m_pitchBendRange := word_of_int (clamp v 0 48)\<rparr>"

definition editPitchBendRange :: "int \<Rightarrow> bool \<Rightarrow> MidiCvTrack \<Rightarrow> MidiCvTrack" where
  "editPitchBendRange v shift' t = setPitchBendRange (pitchBendRange t + v) t"

definition setMidiRetrigger :: "bool \<Rightarrow> MidiCvTrack \<Rightarrow> MidiCvTrack" where
  "setMidiRetrigger v t = t\<lparr>m_retrigger := v\<rparr>"

definition editMidiRetrigger :: "int \<Rightarrow> bool \<Rightarrow> MidiCvTrack \<Rightarrow> MidiCvTrack" where
  "editMidiRetrigger v shift' t = setMidiRetrigger (v > 0) t"

text \<open>
  \<^verbatim>\<open>MidiCvTrack::clear\<close>, which the constructor runs on the uninitialised members, in
  the order of the source. The source, voice configuration, note priority, modulation
  range and arpeggiator have members of their own and are left out.
\<close>

definition midiCvTrackClear :: "MidiCvTrack \<Rightarrow> MidiCvTrack" where
  "midiCvTrackClear t =
     setMidiRetrigger False (setPitchBendRange 2 (setHighNote 127 (setLowNote 0 (setVoices 1 t))))"

datatype SetterCall =
    SetVoices int | EditVoices int bool
  | SetLowNote int | EditLowNote int bool
  | SetHighNote int | EditHighNote int bool
  | SetPitchBendRange int | EditPitchBendRange int bool
  | SetRetrigger bool | EditRetrigger int bool
  | Clear

fun callSetter :: "MidiCvTrack \<Rightarrow> SetterCall \<Rightarrow> MidiCvTrack" where
  "callSetter t (SetVoices v) = setVoices v t"
| "callSetter t (EditVoices v shift') = editVoices v shift' t"
| "callSetter t (SetLowNote v) = setLowNote v t"
| "callSetter t (EditLowNote v shift') = editLowNote v shift' t"
| "callSetter t (SetHighNote v) = setHighNote v t"
| "callSetter t (EditHighNote v shift') = editHighNote v shift' t"
| "callSetter t (SetPitchBendRange v) = setPitchBendRange v t"
| "callSetter t (EditPitchBendRange v shift') = editPitchBendRange v shift' t"
| "callSetter t (SetRetrigger v) = setMidiRetrigger v t"
| "callSetter t (EditRetrigger v shift') = editMidiRetrigger v shift' t"
| "callSetter t Clear = midiCvTrackClear t"

definition callSetters :: "MidiCvTrack \<Rightarrow> SetterCall list \<Rightarrow> MidiCvTrack" where
  "callSetters t calls = foldl callSetter (midiCvTrackClear t) calls"

definition midiCvTrackInvariant :: "MidiCvTrack \<Rightarrow> bool" where
  "midiCvTrackInvariant t =
     (1 \<le> voices t \<and> voices t \<le> 8 \<and> 0 \<le> pitchBendRange t \<and> pitchBendRange t \<le> 48
      \<and> lowNote t \<le> highNote t)"

section \<open>Settings (Settings.cpp, lines 21 to 59)\<close>

text \<open>
  The file classes of the \<^verbatim>\<open>fs\<close> namespace are not among the sources. An error code is
  \<open>OK\<close> or a failure with its number. A file writer or reader is any type \<open>'f\<close> with the
  operations the two functions call: construction from a path, \<^verbatim>\<open>error\<close>, \<^verbatim>\<open>write\<close> or
  \<^verbatim>\<open>read\<close> of a block, and \<^verbatim>\<open>finish\<close>.
\<close>

datatype Error = OK | Failure nat

record 'f FileOps =
  openFile :: "string \<Rightarrow> 'f"
  error :: "'f \<Rightarrow> Error"
  transfer :: "'f \<Rightarrow> nat list \<Rightarrow> 'f"
  finish :: "'f \<Rightarrow> Error"

text \<open>
  \<^verbatim>\<open>Settings::write(path)\<close>. \<open>header\<close> is the bytes of the file header and \<open>blocks\<close> the
  blocks that the serialisation of the calibration hands to the writer, in order. The
  value of the expression statement \<^verbatim>\<open>fileWriter.error();\<close> of line 24 is dropped. The
  result is the returned code and the file writer as the calls leave it.
\<close>

definition settingsWrite :: "'f FileOps \<Rightarrow> nat list \<Rightarrow> nat list list \<Rightarrow> string \<Rightarrow> Error \<times> 'f" where
  "settingsWrite ops header blocks path =
     (let fileWriter = openFile ops path;
          dropped = (if error ops fileWriter \<noteq> OK then error ops fileWriter else OK);
          fileWriter1 = transfer ops fileWriter header;
          fileWriter2 = foldl (transfer ops) fileWriter1 blocks
      in (finish ops fileWriter2, fileWriter2))"

text \<open>
  \<^verbatim>\<open>Settings::read(path)\<close>: the same shape with a file reader; \<open>header\<close> and \<open>blocks\<close> are
  the sizes requested, as lists of that length.
\<close>

definition settingsRead :: "'f FileOps \<Rightarrow> nat list \<Rightarrow> nat list list \<Rightarrow> string \<Rightarrow> Error \<times> 'f" where
  "settingsRead ops header blocks path =
     (let fileReader = openFile ops path;
          dropped = (if error ops fileReader \<noteq> OK then error ops fileReader else OK);
          fileReader1 = transfer ops fileReader header;
          fileReader2 = foldl (transfer ops) fileReader1 blocks
      in (finish ops fileReader2, fileReader2))"

text \<open>
  A file class for concrete runs: it keeps the code of the failed open and the list of
  the blocks it was asked to transfer. Opening succeeds for the settings file name only.
\<close>

record LoggedFile =
  openError :: Error
  requested :: "nat list list"

definition loggedFileOps :: "LoggedFile FileOps" where
  "loggedFileOps =
     \<lparr>openFile = (\<lambda>path. \<lparr>openError = (if path = ''SETTINGS.DAT'' then OK else Failure 4),
                            requested = []\<rparr>),
      error = openError,
      transfer = (\<lambda>f block. f\<lparr>requested := requested f @ [block]\<rparr>),
      finish = openError\<rparr>"

section \<open>Concrete values for runs of the model\<close>

text \<open>
  A step with its gate on, every probability at its maximum, the longest length and a
  retrigger field of 2; a table of four loop conditions of base 4; sixteen patterns of
  sixteen such steps; a swing that leaves ticks in place.
\<close>

definition exampleStep :: Step where
  "exampleStep =
     \<lparr>gate = True, gateProbability = 7, gateOffset = 0, slide = False, retrigger = 2,
      retriggerProbability = 7, length' = 7, lengthVariationRange = 0,
      lengthVariationProbability = 7, note' = 0, noteVariationRange = 0,
      noteVariationProbability = 7, condition = Off\<rparr>"

definition exampleConditions :: ConditionTypes where
  "exampleConditions =
     \<lparr>Condition_Loop = 7, Condition_Last = 11,
      conditionLoop = (\<lambda>index. \<lparr>base = 4, offset = index - 7\<rparr>)\<rparr>"

definition exampleEnv :: Env where
  "exampleEnv =
     \<lparr>types = exampleTypes, conditions = exampleConditions,
      rotateStep = (\<lambda>s first last r. first + (s - first + r) mod (last - first + 1)),
      applySwing = (\<lambda>t. t), CONFIG_PATTERN_COUNT = 16,
      noteFromMidiNote = (\<lambda>n. n - 60),
      clearStep = (\<lambda>s. exampleStep\<lparr>gate := False\<rparr>)\<rparr>"

definition exampleSequence :: NoteSequence where
  "exampleSequence = \<lparr>steps = replicate 16 exampleStep, firstStep = 0, lastStep = 15\<rparr>"

definition exampleTrack :: NoteTrack where
  "exampleTrack =
     \<lparr>sequences = replicate 16 exampleSequence, fillMode = NoteFill_Gates, rotate' = 0,
      gateProbabilityBias = 0, retriggerProbabilityBias = 0, lengthBias = 0\<rparr>"

definition exampleEngine :: NoteTrackEngine where
  "exampleEngine =
     \<lparr>noteTrack = exampleTrack, trackPattern = 0, trackFill = True, trackFillAmount = 100,
      sequence = 0, fillSequence = 1,
      sequenceState = \<lparr>step = 0, prevStep = 15, iteration = 0\<rparr>,
      currentStep = - 1, prevCondition = False, recordHistory = []\<rparr>"

definition exampleRng :: Random where
  "exampleRng = 5 ## 3 ## sconst 0"

text \<open>
  A curve engine on the last of sixteen patterns, whose sequence has a single step
  (first step and last step are both 0), with fill held at a fill amount of 0.
\<close>

definition exampleCurveStep :: CurveStep where
  "exampleCurveStep =
     \<lparr>shape = 0, shapeVariation = 1, shapeVariationProbability = 0, curveGate = 0,
      curveGateProbability = 7\<rparr>"

definition exampleCurveEnv :: CurveEnv where
  "exampleCurveEnv =
     \<lparr>curveGateProbabilityType = UnsignedValue 3,
      curveRotateStep = (\<lambda>s first last r. first + (s - first + r) mod (last - first + 1)),
      curveApplySwing = (\<lambda>t. t), CURVE_CONFIG_PATTERN_COUNT = 16\<rparr>"

definition exampleCurveEngine :: CurveTrackEngine where
  "exampleCurveEngine =
     \<lparr>curveTrack =
        \<lparr>curveSequences = replicate 16
           \<lparr>curveSteps = replicate 16 exampleCurveStep, curveFirstStep = 0, curveLastStep = 0\<rparr>,
         curveFillMode = CurveFill_Invert, curveRotate = 0, shapeProbabilityBias = 0,
         curveGateProbabilityBias = 0\<rparr>,
      curvePattern = 15, curveFill = True, curveFillAmount = 0,
      curveSequence = 15, curveFillSequence = 15,
      curveSequenceState = \<lparr>step = 0, prevStep = 0, iteration = 1\<rparr>,
      curveCurrentStep = 0, shapeVariationActive = False, engineFillMode = CurveFill_None\<rparr>"




section \<open>Descriptions the loops are compared with\<close>






section \<open>Facts about the helpers\<close>

lemma nextRange_less: "0 < n \<Longrightarrow> fst (nextRange n rng) < n"
  by (simp add: nextRange_def)

lemma retriggerLoop_nonempty:
  "0 < n \<Longrightarrow> retriggerLoop sw start len stepLength n 0 \<noteq> []"
  by (cases n) simp_all

lemma gateEvents_nonempty: "gateEvents env tick divisor go sl r \<noteq> []"
  by (simp add: gateEvents_def retriggerLoop_nonempty)

lemma smod_nonneg: "0 \<le> a \<Longrightarrow> 0 < b \<Longrightarrow> a smod b = a mod b" for a b :: int
  by (cases "a = 0") (simp_all add: signed_modulo_int_def sgn_if)



section \<open>Gate probability and fill gates\<close>

text \<open>
  C1. For every step and bias, \<^verbatim>\<open>evalStepGate\<close> returns true exactly when the gate of the
  step is set and the sample drawn below \<^verbatim>\<open>GateProbability::Range\<close> is at most
  \<^verbatim>\<open>clamp(gateProbability + bias, -1, GateProbability::Max)\<close>; the sample lies below the
  range. When the fill test of the trigger passes and the fill mode is \<^verbatim>\<open>Gates\<close>,
  \<^verbatim>\<open>triggerStep\<close> takes the gate as passed whatever the step says: whether gate events
  are pushed, and what \<^verbatim>\<open>_prevCondition\<close> becomes, is decided by the condition of the
  step alone.
\<close>

theorem evalStepGate_sample_and_fill_gates:
  "fst (evalStepGate T step' bias rng) =
     (gate step' \<and>
      int (fst (nextRange (nat (Range' (GateProbability T))) rng))
        \<le> clamp (gateProbability step' + bias) (- 1) (Max' (GateProbability T)))
   \<and> (0 < Range' (GateProbability T) \<longrightarrow>
        int (fst (nextRange (nat (Range' (GateProbability T))) rng)) < Range' (GateProbability T))
   \<and> (fst (evalFillStep (trackFill e) (trackFillAmount e) rng)
        \<and> fillMode (noteTrack e) = NoteFill_Gates \<longrightarrow>
        (let (e', rng', evs) = triggerStep env tick divisor e rng;
             step'' = stepAt (evalSequence e False) (rotatedStep env e);
             (c, p) = evalStepCondition (conditions env) step'' (iteration (sequenceState e))
                        False (prevCondition e)
         in prevCondition e' = p \<and> (evs \<noteq> []) = c))"
proof (intro conjI impI)
  show "fst (evalStepGate T step' bias rng) =
     (gate step' \<and>
      int (fst (nextRange (nat (Range' (GateProbability T))) rng))
        \<le> clamp (gateProbability step' + bias) (- 1) (Max' (GateProbability T)))"
    by (simp add: evalStepGate_def Let_def split: prod.splits)
next
  assume "0 < Range' (GateProbability T)"
  then show "int (fst (nextRange (nat (Range' (GateProbability T))) rng))
               < Range' (GateProbability T)"
    using nextRange_less [of "nat (Range' (GateProbability T))" rng] by simp
next
  assume a: "fst (evalFillStep (trackFill e) (trackFillAmount e) rng)
               \<and> fillMode (noteTrack e) = NoteFill_Gates"
  show "(let (e', rng', evs) = triggerStep env tick divisor e rng;
             step'' = stepAt (evalSequence e False) (rotatedStep env e);
             (c, p) = evalStepCondition (conditions env) step'' (iteration (sequenceState e))
                        False (prevCondition e)
         in prevCondition e' = p \<and> (evs \<noteq> []) = c)"
    using a
    by (auto simp: triggerStep_def evalTriggerGate_def Let_def gateEvents_nonempty
             split: prod.splits)
qed

theorem evalStepGate_sample_and_fill_gates_witness:
  "0 < Range' (GateProbability exampleTypes)
   \<and> fst (evalFillStep (trackFill exampleEngine) (trackFillAmount exampleEngine) exampleRng)
   \<and> fillMode (noteTrack exampleEngine) = NoteFill_Gates
   \<and> fst (evalStepGate exampleTypes (exampleStep\<lparr>gateProbability := 3\<rparr>) 0 exampleRng) = False
   \<and> int (fst (nextRange (nat (Range' (GateProbability exampleTypes))) exampleRng)) < 8
   \<and> (let (e', rng', evs) = triggerStep exampleEnv 0 24 exampleEngine exampleRng;
           step'' = stepAt (evalSequence exampleEngine False) (rotatedStep exampleEnv exampleEngine);
           (c, p) = evalStepCondition (conditions exampleEnv) step''
                      (iteration (sequenceState exampleEngine)) False (prevCondition exampleEngine)
       in prevCondition e' = p \<and> (evs \<noteq> []) = c)"
proof -
  have r: "Range' (GateProbability exampleTypes) = 8" "Max' (GateProbability exampleTypes) = 7"
    by (simp_all add: exampleTypes_def UnsignedValue_def)
  have f: "fst (evalFillStep (trackFill exampleEngine) (trackFillAmount exampleEngine) exampleRng)"
    by (simp add: exampleEngine_def exampleRng_def evalFillStep_def nextRange_def)
  have m: "fillMode (noteTrack exampleEngine) = NoteFill_Gates"
    by (simp add: exampleEngine_def exampleTrack_def)
  have s: "fst (nextRange 8 exampleRng) = 5"
    by (simp add: exampleRng_def nextRange_def)
  have g: "gate (exampleStep\<lparr>gateProbability := 3\<rparr>)"
          "gateProbability (exampleStep\<lparr>gateProbability := 3\<rparr>) = 3"
    by (simp_all add: exampleStep_def)
  show ?thesis
    using evalStepGate_sample_and_fill_gates
            [of exampleTypes "exampleStep\<lparr>gateProbability := 3\<rparr>" 0 exampleRng exampleEngine
                exampleEnv 0 24]
          f m
    by (simp add: r s g clamp_def)
qed

section \<open>Step conditions\<close>

text \<open>
  C2. \<^verbatim>\<open>evalStepCondition\<close> returns true for \<^verbatim>\<open>Off\<close> and leaves \<^verbatim>\<open>prevCondition\<close> as it
  was; \<^verbatim>\<open>Pre\<close> returns \<^verbatim>\<open>prevCondition\<close> and \<^verbatim>\<open>NotPre\<close> its negation, both without
  writing it; \<^verbatim>\<open>Fill\<close>, \<^verbatim>\<open>NotFill\<close>, \<^verbatim>\<open>First\<close>, \<^verbatim>\<open>NotFirst\<close> and every loop condition
  (an index from \<^verbatim>\<open>Loop\<close> up to, not including, \<^verbatim>\<open>Last\<close>) store the value they return in
  \<^verbatim>\<open>prevCondition\<close>; a loop condition returns whether the remainder of the iteration by
  the base is the offset.
\<close>

theorem evalStepCondition_branches:
  "(condition s = Off \<longrightarrow> evalStepCondition C s it f p = (True, p))
   \<and> (condition s = Pre \<longrightarrow> evalStepCondition C s it f p = (p, p))
   \<and> (condition s = NotPre \<longrightarrow> evalStepCondition C s it f p = (\<not> p, p))
   \<and> (condition s = Fill \<longrightarrow> evalStepCondition C s it f p = (f, f))
   \<and> (condition s = NotFill \<longrightarrow> evalStepCondition C s it f p = (\<not> f, \<not> f))
   \<and> (condition s = First \<longrightarrow> evalStepCondition C s it f p = (it = 0, it = 0))
   \<and> (condition s = NotFirst \<longrightarrow> evalStepCondition C s it f p = (it \<noteq> 0, it \<noteq> 0))
   \<and> (condition s = Other i \<and> Condition_Loop C \<le> i \<and> i < Condition_Last C \<longrightarrow>
        evalStepCondition C s it f p
          = (it smod base (conditionLoop C i) = offset (conditionLoop C i),
             it smod base (conditionLoop C i) = offset (conditionLoop C i))
        \<and> (0 \<le> it \<and> 0 < base (conditionLoop C i) \<longrightarrow>
             fst (evalStepCondition C s it f p)
               = (it mod base (conditionLoop C i) = offset (conditionLoop C i))))"
  by (auto simp: evalStepCondition_def Let_def smod_nonneg)

theorem evalStepCondition_branches_witness:
  "condition exampleStep = Off
   \<and> evalStepCondition exampleConditions exampleStep 5 True False = (True, False)
   \<and> condition (exampleStep\<lparr>condition := Pre\<rparr>) = Pre
   \<and> evalStepCondition exampleConditions (exampleStep\<lparr>condition := Pre\<rparr>) 5 True True
       = (True, True)
   \<and> condition (exampleStep\<lparr>condition := NotPre\<rparr>) = NotPre
   \<and> evalStepCondition exampleConditions (exampleStep\<lparr>condition := NotPre\<rparr>) 5 True True
       = (False, True)
   \<and> condition (exampleStep\<lparr>condition := Fill\<rparr>) = Fill
   \<and> evalStepCondition exampleConditions (exampleStep\<lparr>condition := Fill\<rparr>) 5 True False
       = (True, True)
   \<and> condition (exampleStep\<lparr>condition := NotFill\<rparr>) = NotFill
   \<and> evalStepCondition exampleConditions (exampleStep\<lparr>condition := NotFill\<rparr>) 5 True True
       = (False, False)
   \<and> condition (exampleStep\<lparr>condition := First\<rparr>) = First
   \<and> evalStepCondition exampleConditions (exampleStep\<lparr>condition := First\<rparr>) 0 False False
       = (True, True)
   \<and> condition (exampleStep\<lparr>condition := NotFirst\<rparr>) = NotFirst
   \<and> evalStepCondition exampleConditions (exampleStep\<lparr>condition := NotFirst\<rparr>) 0 False True
       = (False, False)
   \<and> condition (exampleStep\<lparr>condition := Other 8\<rparr>) = Other 8
   \<and> Condition_Loop exampleConditions \<le> 8 \<and> 8 < Condition_Last exampleConditions
   \<and> (0::int) \<le> 5 \<and> 0 < base (conditionLoop exampleConditions 8)
   \<and> evalStepCondition exampleConditions (exampleStep\<lparr>condition := Other 8\<rparr>) 5 False False
       = (True, True)
   \<and> fst (evalStepCondition exampleConditions (exampleStep\<lparr>condition := Other 8\<rparr>) 5 False False)
       = ((5::int) mod 4 = 1)"
proof -
  note C = exampleConditions_def
  have a: "condition exampleStep = Off" by (simp add: exampleStep_def)
  have l: "Condition_Loop exampleConditions \<le> 8 \<and> 8 < Condition_Last exampleConditions
           \<and> 0 < base (conditionLoop exampleConditions 8)" by (simp add: C)
  show ?thesis
    using a l
      evalStepCondition_branches [of exampleStep exampleConditions 5 True False]
      evalStepCondition_branches [of "exampleStep\<lparr>condition := Pre\<rparr>" exampleConditions 5 True True]
      evalStepCondition_branches [of "exampleStep\<lparr>condition := NotPre\<rparr>" exampleConditions 5 True True]
      evalStepCondition_branches [of "exampleStep\<lparr>condition := Fill\<rparr>" exampleConditions 5 True False]
      evalStepCondition_branches [of "exampleStep\<lparr>condition := NotFill\<rparr>" exampleConditions 5 True True]
      evalStepCondition_branches [of "exampleStep\<lparr>condition := First\<rparr>" exampleConditions 0 False False]
      evalStepCondition_branches [of "exampleStep\<lparr>condition := NotFirst\<rparr>" exampleConditions 0 False True]
      evalStepCondition_branches [of "exampleStep\<lparr>condition := Other 8\<rparr>" exampleConditions 5 False False 8]
    by (simp add: C)
qed

section \<open>MidiCvTrack setters\<close>

lemma uint_u8_of_int: "0 \<le> x \<Longrightarrow> x \<le> 255 \<Longrightarrow> uint (word_of_int x :: u8) = x"
  by (simp add: uint_word_of_int take_bit_int_eq_self)

lemma uint_u8_bounds: "0 \<le> uint (w :: u8) \<and> uint w \<le> 255"
  using uint_lt2p [of w] by simp

lemma clamp_lower: "lo \<le> clamp v lo hi"
  by (simp add: clamp_def)

lemma clamp_upper: "clamp v lo hi \<le> max lo hi"
  by (simp add: clamp_def max_def min_def)

lemma clamp_u8:
  assumes "0 \<le> lo" "lo \<le> 255" "hi \<le> 255"
  shows "uint (word_of_int (clamp v lo hi) :: u8) = clamp v lo hi"
proof -
  have "0 \<le> clamp v lo hi"
    using assms(1) clamp_lower [of lo v hi] by linarith
  moreover have "clamp v lo hi \<le> 255"
    using assms(2,3) clamp_upper [of v lo hi] by (simp add: max_def split: if_splits)
  ultimately show ?thesis
    by (rule uint_u8_of_int)
qed

lemma voices_setVoices: "voices (setVoices v t) = clamp v 1 8"
  by (simp add: voices_def setVoices_def clamp_u8)

lemma pitchBendRange_setPitchBendRange: "pitchBendRange (setPitchBendRange v t) = clamp v 0 48"
  by (simp add: pitchBendRange_def setPitchBendRange_def clamp_u8)

lemma lowNote_setLowNote: "lowNote (setLowNote v t) = clamp v 0 (highNote t)"
proof -
  have "uint (word_of_int (clamp v 0 (highNote t)) :: u8) = clamp v 0 (highNote t)"
    using uint_u8_bounds [of "m_highNote t"] by (intro clamp_u8) (simp_all add: highNote_def)
  then show ?thesis
    by (simp add: setLowNote_def lowNote_def highNote_def)
qed

lemma highNote_setHighNote: "highNote (setHighNote v t) = clamp v (lowNote t) 127"
proof -
  have "uint (word_of_int (clamp v (lowNote t) 127) :: u8) = clamp v (lowNote t) 127"
    using uint_u8_bounds [of "m_lowNote t"] by (intro clamp_u8) (simp_all add: lowNote_def)
  then show ?thesis
    by (simp add: setHighNote_def highNote_def lowNote_def)
qed

lemma setter_frames:
  "lowNote (setVoices v t) = lowNote t" "highNote (setVoices v t) = highNote t"
  "pitchBendRange (setVoices v t) = pitchBendRange t"
  "voices (setLowNote v t) = voices t" "highNote (setLowNote v t) = highNote t"
  "pitchBendRange (setLowNote v t) = pitchBendRange t"
  "voices (setHighNote v t) = voices t" "lowNote (setHighNote v t) = lowNote t"
  "pitchBendRange (setHighNote v t) = pitchBendRange t"
  "voices (setPitchBendRange v t) = voices t" "lowNote (setPitchBendRange v t) = lowNote t"
  "highNote (setPitchBendRange v t) = highNote t"
  "voices (setMidiRetrigger b t) = voices t" "lowNote (setMidiRetrigger b t) = lowNote t"
  "highNote (setMidiRetrigger b t) = highNote t"
  "pitchBendRange (setMidiRetrigger b t) = pitchBendRange t"
  by (simp_all add: voices_def lowNote_def highNote_def pitchBendRange_def setVoices_def
        setLowNote_def setHighNote_def setPitchBendRange_def setMidiRetrigger_def)

lemmas setter_results =
  voices_setVoices pitchBendRange_setPitchBendRange lowNote_setLowNote highNote_setHighNote
  setter_frames

lemma highNote_nonneg: "0 \<le> highNote t"
  by (simp add: highNote_def)

lemma invariant_clear: "midiCvTrackInvariant (midiCvTrackClear t)"
  using highNote_nonneg [of t]
  by (simp add: midiCvTrackInvariant_def midiCvTrackClear_def setter_results clamp_def)

lemma invariant_callSetter:
  "midiCvTrackInvariant t \<Longrightarrow> midiCvTrackInvariant (callSetter t c)"
proof (cases c)
  case Clear
  then show ?thesis by (simp add: invariant_clear)
qed (auto simp: midiCvTrackInvariant_def setter_results clamp_def editVoices_def editLowNote_def
       editHighNote_def editPitchBendRange_def editMidiRetrigger_def highNote_nonneg)

lemma invariant_foldl:
  "midiCvTrackInvariant t \<Longrightarrow> midiCvTrackInvariant (foldl callSetter t calls)"
  by (induction calls arbitrary: t) (simp_all add: invariant_callSetter)

text \<open>
  C7. A track is constructed by \<^verbatim>\<open>clear()\<close> on members of any content. After any
  sequence of setter and edit calls on it, the voices are in \<open>[1, 8]\<close>, the pitch bend
  range is in \<open>[0, 48]\<close> and the low note is at most the high note. \<^verbatim>\<open>setVoices\<close>
  clamps into \<open>[1, 8]\<close>, \<^verbatim>\<open>setPitchBendRange\<close> into \<open>[0, 48]\<close>, \<^verbatim>\<open>setLowNote\<close> into
  \<open>[0, highNote]\<close> and \<^verbatim>\<open>setHighNote\<close> into \<open>[lowNote, 127]\<close>, and the eight-bit member
  holds the clamped value unchanged.
\<close>

theorem midiCvTrack_setters_keep_invariant:
  "midiCvTrackInvariant (callSetters t calls)
   \<and> voices (setVoices v t) = clamp v 1 8
   \<and> pitchBendRange (setPitchBendRange v t) = clamp v 0 48
   \<and> lowNote (setLowNote v t) = clamp v 0 (highNote t)
   \<and> highNote (setHighNote v t) = clamp v (lowNote t) 127"
  by (simp add: callSetters_def invariant_foldl invariant_clear setter_results)

section \<open>The fill test\<close>



















section \<open>The fill source of a pattern\<close>

text \<open>
  C10. \<^verbatim>\<open>changePattern\<close> points \<^verbatim>\<open>_sequence\<close> at the sequence of the current pattern and
  \<^verbatim>\<open>_fillSequence\<close> at the sequence of index \<^verbatim>\<open>min(pattern + 1, CONFIG_PATTERN_COUNT - 1)\<close>,
  in the note engine and in the curve engine. On the last pattern the two pointers are
  equal: the note engine evaluates the step of the current sequence also when it uses
  the fill sequence, and the output of the curve engine under fill mode
  \<^verbatim>\<open>NextPattern\<close> reads the same step as without fill.
\<close>

theorem changePattern_fill_source:
  "sequence (changePattern env e) = trackPattern e
   \<and> fillSequence (changePattern env e) = min (trackPattern e + 1) (CONFIG_PATTERN_COUNT env - 1)
   \<and> curveSequence (curveChangePattern cenv c) = curvePattern c
   \<and> curveFillSequence (curveChangePattern cenv c)
       = min (curvePattern c + 1) (CURVE_CONFIG_PATTERN_COUNT cenv - 1)
   \<and> (trackPattern e = CONFIG_PATTERN_COUNT env - 1 \<longrightarrow>
        fillSequence (changePattern env e) = sequence (changePattern env e)
        \<and> evalSequence (changePattern env e) True
            = sequenceAt (noteTrack e) (trackPattern e))
   \<and> (curvePattern c = CURVE_CONFIG_PATTERN_COUNT cenv - 1 \<longrightarrow>
        curveFillSequence (curveChangePattern cenv c) = curveSequence (curveChangePattern cenv c)
        \<and> updateOutputArgs ((curveChangePattern cenv c)\<lparr>engineFillMode := CurveFill_NextPattern\<rparr>)
            = updateOutputArgs ((curveChangePattern cenv c)\<lparr>engineFillMode := CurveFill_None\<rparr>))"
  by (auto simp: changePattern_def curveChangePattern_def evalSequence_def updateOutputArgs_def
        Let_def)

theorem changePattern_fill_source_witness:
  "trackPattern (exampleEngine\<lparr>trackPattern := 15\<rparr>) = CONFIG_PATTERN_COUNT exampleEnv - 1
   \<and> curvePattern exampleCurveEngine = CURVE_CONFIG_PATTERN_COUNT exampleCurveEnv - 1
   \<and> sequence (changePattern exampleEnv (exampleEngine\<lparr>trackPattern := 15\<rparr>)) = 15
   \<and> fillSequence (changePattern exampleEnv (exampleEngine\<lparr>trackPattern := 15\<rparr>)) = 15
   \<and> evalSequence (changePattern exampleEnv (exampleEngine\<lparr>trackPattern := 15\<rparr>)) True
       = sequenceAt (noteTrack exampleEngine) 15
   \<and> curveSequence (curveChangePattern exampleCurveEnv exampleCurveEngine) = 15
   \<and> curveFillSequence (curveChangePattern exampleCurveEnv exampleCurveEngine) = 15
   \<and> updateOutputArgs
        ((curveChangePattern exampleCurveEnv exampleCurveEngine)
           \<lparr>engineFillMode := CurveFill_NextPattern\<rparr>)
       = updateOutputArgs
           ((curveChangePattern exampleCurveEnv exampleCurveEngine)
              \<lparr>engineFillMode := CurveFill_None\<rparr>)"
proof -
  have a: "trackPattern (exampleEngine\<lparr>trackPattern := 15\<rparr>) = 15"
          "noteTrack (exampleEngine\<lparr>trackPattern := 15\<rparr>) = noteTrack exampleEngine"
          "CONFIG_PATTERN_COUNT exampleEnv = 16"
    by (simp_all add: exampleEngine_def exampleEnv_def)
  have b: "curvePattern exampleCurveEngine = 15" "CURVE_CONFIG_PATTERN_COUNT exampleCurveEnv = 16"
    by (simp_all add: exampleCurveEngine_def exampleCurveEnv_def)
  show ?thesis
    using changePattern_fill_source
            [of exampleEnv "exampleEngine\<lparr>trackPattern := 15\<rparr>" exampleCurveEnv exampleCurveEngine]
    by (simp add: a b)
qed

section \<open>Sequence progress of the curve engine\<close>

lemma sequenceProgress_in_range:
  assumes "curveFirstStep (curveSequenceAt (curveTrack e) (curveSequence e))
             < curveLastStep (curveSequenceAt (curveTrack e) (curveSequence e))"
      and "curveCurrentStep e \<le> curveLastStep (curveSequenceAt (curveTrack e) (curveSequence e))"
      and "curveCurrentStep e < 0
           \<or> curveFirstStep (curveSequenceAt (curveTrack e) (curveSequence e)) \<le> curveCurrentStep e"
  shows "inUnitInterval (sequenceProgress e)"
  using assms
  by (auto simp: sequenceProgress_def fdiv_def inUnitInterval_def Let_def)

lemma sequenceProgress_no_step: "curveCurrentStep e < 0 \<Longrightarrow> sequenceProgress e = Number 0"
  by (simp add: sequenceProgress_def)

text \<open>
  C6. The claim is that \<^verbatim>\<open>sequenceProgress()\<close> lies in \<open>[0, 1]\<close> in every state. On a
  sequence of one step (first step equal to last step) that has played its step, the
  function divides \<open>0\<close> by \<open>0\<close>: the result is NaN, which is not in \<open>[0, 1]\<close>.
\<close>

theorem sequenceProgress_single_step_is_NaN:
  "sequenceProgress exampleCurveEngine = NaN
   \<and> \<not> inUnitInterval (sequenceProgress exampleCurveEngine)"
  by (simp add: sequenceProgress_def exampleCurveEngine_def curveSequenceAt_def fdiv_def
        inUnitInterval_def)

section \<open>Errors of the settings file\<close>

text \<open>
  C8. The claim is that a failed open makes \<^verbatim>\<open>Settings::write\<close> and \<^verbatim>\<open>Settings::read\<close>
  return the error code instead of going on. With a file that fails to open, both
  functions still request the transfer of the header and of every block, and return what
  \<^verbatim>\<open>finish\<close> reports: the code of the open only if \<^verbatim>\<open>finish\<close> repeats it, and \<open>OK\<close>
  if \<^verbatim>\<open>finish\<close> reports success. What \<^verbatim>\<open>error\<close> reports has no influence on either
  result.
\<close>

theorem settings_go_on_after_failed_open:
  "settingsWrite loggedFileOps header blocks ''NOFILE.DAT''
     = (Failure 4, \<lparr>openError = Failure 4, requested = header # blocks\<rparr>)
   \<and> settingsRead loggedFileOps header blocks ''NOFILE.DAT''
     = (Failure 4, \<lparr>openError = Failure 4, requested = header # blocks\<rparr>)
   \<and> fst (settingsWrite (loggedFileOps\<lparr>finish := (\<lambda>f. OK)\<rparr>) header blocks ''NOFILE.DAT'') = OK
   \<and> fst (settingsRead (loggedFileOps\<lparr>finish := (\<lambda>f. OK)\<rparr>) header blocks ''NOFILE.DAT'') = OK
   \<and> settingsWrite (ops\<lparr>error := err\<rparr>) header blocks path
       = settingsWrite ops header blocks path
   \<and> settingsRead (ops\<lparr>error := err\<rparr>) header blocks path
       = settingsRead ops header blocks path"
proof -
  have f: "foldl (\<lambda>f block. f\<lparr>requested := requested f @ [block]\<rparr>) w bs
             = w\<lparr>requested := requested w @ bs\<rparr>" for w :: LoggedFile and bs
    by (induction bs arbitrary: w) simp_all
  show ?thesis
    by (simp add: settingsWrite_def settingsRead_def loggedFileOps_def f Let_def)
qed

section \<open>Step length\<close>










section \<open>Retrigger\<close>











section \<open>Recording notes into steps\<close>
























end
